theory Spec2Isabelle
  imports Main "HOL-Library.Sublist"
begin

section \<open>String constants of index.js\<close>

text \<open>
  JavaScript strings are modelled as \<^typ>\<open>string\<close>: each constant below is the UTF-8
  byte sequence of the corresponding literal of \<^verbatim>\<open>src/index.js\<close>, with every byte
  outside plain ASCII text written as \<open>CHR 0x..\<close>. Template interpolation is list
  concatenation. No property proved below depends on the length of a string.

  The second copy of the program (\<^verbatim>\<open>src/unnamed/part_000\<close>) differs from
  \<^verbatim>\<open>src/index.js\<close> only in the text of \<open>PROMPT_MEDICINA\<close>; no proof below
  unfolds that constant.
\<close>

definition PROMPT_MEDICINA :: string where
  "PROMPT_MEDICINA =
     [CHR 0x0A] @ ''Voc'' @ [CHR 0xC3, CHR 0xAA] @ '' '' @ [CHR 0xC3, CHR 0xA9] @
     '' um preceptor m'' @ [CHR 0xC3, CHR 0xA9] @ ''dico de alt'' @ [CHR 0xC3, CHR 0xAD] @
     ''ssimo n'' @ [CHR 0xC3, CHR 0xAD] @ ''vel, especialista em Urg'' @ [CHR 0xC3, CHR 0xAA] @
     ''ncia, Emerg'' @ [CHR 0xC3, CHR 0xAA] @ ''ncia, Cirurgia e Terapia Intensiva.'' @
     [CHR 0x0A] @ ''O usu'' @ [CHR 0xC3, CHR 0xA1] @ ''rio '' @ [CHR 0xC3, CHR 0xA9] @
     '' um estudante ou m'' @ [CHR 0xC3, CHR 0xA9] @ ''dico buscando informa'' @
     [CHR 0xC3, CHR 0xA7, CHR 0xC3, CHR 0xB5] @ ''es r'' @ [CHR 0xC3, CHR 0xA1] @ ''pidas.'' @
     [CHR 0x0A, CHR 0x0A] @
     ''OBJETIVO: Fornecer respostas precisas, diretas e otimizadas estr'' @
     ''itamente para leitura no WHATSAPP.'' @
     [CHR 0x0A, CHR 0x0A, CHR 0xF0, CHR 0x9F, CHR 0x9A, CHR 0xA8] @ '' REGRAS R'' @
     [CHR 0xC3, CHR 0x8D] @ ''GIDAS DE FORMATA'' @ [CHR 0xC3, CHR 0x87, CHR 0xC3, CHR 0x83] @
     ''O (LIMITA'' @ [CHR 0xC3, CHR 0x87, CHR 0xC3, CHR 0x95] @ ''ES DO WHATSAPP) '' @
     [CHR 0xF0, CHR 0x9F, CHR 0x9A, CHR 0xA8, CHR 0x0A] @
     ''1. PROIBIDO TABELAS E HTML: O WhatsApp N'' @ [CHR 0xC3, CHR 0x83] @
     ''O suporta tabelas Markdown (| coluna |), cabe'' @ [CHR 0xC3, CHR 0xA7] @
     ''alhos com hashtag (###), nem tags HTML como <br>. NUNCA os utili'' @ ''ze.'' @
     [CHR 0x0A] @ ''2. NEGRITO: Para destacar palavras, use apenas UM asterisco de c'' @
     ''ada lado. Exemplo: '' @ [CHR 0x2A] @ ''Cardiomiopatia'' @ [CHR 0x2A] @
     ''. NUNCA use dois asteriscos ('' @ [CHR 0x2A, CHR 0x2A] @ '').'' @ [CHR 0x0A] @ ''3. IT'' @
     [CHR 0xC3, CHR 0x81] @ ''LICO: Use underline. Exemplo: _texto_.'' @ [CHR 0x0A] @
     ''4. ESTRUTURA'' @ [CHR 0xC3, CHR 0x87, CHR 0xC3, CHR 0x83] @
     ''O SEM TABELAS: Se precisar comparar doen'' @ [CHR 0xC3, CHR 0xA7] @
     ''as (ex: tipos de cardiomiopatias), crie um bloco de texto para c'' @
     ''ada uma usando listas e emojis, NUNCA desenhe uma tabela.'' @ [CHR 0x0A] @ ''5. T'' @
     [CHR 0xC3, CHR 0x8D] @ ''TULOS: Como n'' @ [CHR 0xC3, CHR 0xA3] @ ''o h'' @
     [CHR 0xC3, CHR 0xA1] @ '' tags de cabe'' @ [CHR 0xC3, CHR 0xA7] @ ''alho, fa'' @
     [CHR 0xC3, CHR 0xA7] @ ''a t'' @ [CHR 0xC3, CHR 0xAD] @ ''tulos usando letras mai'' @
     [CHR 0xC3, CHR 0xBA] @ ''sculas, emojis e negrito. Exemplo: '' @
     [CHR 0xF0, CHR 0x9F, CHR 0xAB, CHR 0x80] @ '' '' @ [CHR 0x2A] @ ''CLASSIFICA'' @
     [CHR 0xC3, CHR 0x87, CHR 0xC3, CHR 0x83] @ ''O DAS CARDIOMIOPATIAS PRIM'' @
     [CHR 0xC3, CHR 0x81] @ ''RIAS'' @ [CHR 0x2A, CHR 0x0A] @
     ''6. QUEBRAS DE LINHA: Use a quebra de linha normal (pular linha),'' @
     '' nunca escreva <br>.'' @ [CHR 0x0A, CHR 0x0A] @ ''DIRETRIZES DE CONTE'' @
     [CHR 0xC3, CHR 0x9A] @ ''DO M'' @ [CHR 0xC3, CHR 0x89] @ ''DICO:'' @ [CHR 0x0A] @ ''1. V'' @
     [CHR 0xC3, CHR 0x81] @ '' DIRETO AO PONTO: Zero enrola'' @
     [CHR 0xC3, CHR 0xA7, CHR 0xC3, CHR 0xA3] @ ''o. Sem '' @ [CHR 0x22] @ ''Ol'' @
     [CHR 0xC3, CHR 0xA1, CHR 0x22] @ '', sem introdu'' @
     [CHR 0xC3, CHR 0xA7, CHR 0xC3, CHR 0xB5] @ ''es.'' @ [CHR 0x0A] @
     ''2. SCANNEABILIDADE: O usu'' @ [CHR 0xC3, CHR 0xA1] @ ''rio est'' @ [CHR 0xC3, CHR 0xA1] @
     '' num plant'' @ [CHR 0xC3, CHR 0xA3] @ ''o ou fazendo prova. Use t'' @
     [CHR 0xC3, CHR 0xB3] @ ''picos curtos (com o s'' @ [CHR 0xC3, CHR 0xAD] @ ''mbolo '' @
     [CHR 0xE2, CHR 0x80, CHR 0xA2] @ '' ou -). '' @ [CHR 0x0A] @
     ''3. CONDUTAS E ALGORITMOS: Use fluxogramas em texto claro. Exempl'' @ ''o: '' @
     [CHR 0x2A] @ ''Passo 1'' @ [CHR 0x2A] @ '' '' @ [CHR 0xE2, CHR 0x9E, CHR 0x94] @ '' '' @
     [CHR 0x2A] @ ''Passo 2'' @ [CHR 0x2A] @ '' '' @ [CHR 0xE2, CHR 0x9E, CHR 0x94] @ '' '' @
     [CHR 0x2A] @ ''Passo 3'' @ [CHR 0x2A] @ ''.'' @ [CHR 0x0A] @ ''4. QUEST'' @
     [CHR 0xC3, CHR 0x95] @ ''ES DE PROVA: D'' @ [CHR 0xC3, CHR 0xAA] @
     '' o GABARITO imediatamente na primeira linha. Em seguida, justifi'' @
     ''que rapidamente porque a certa '' @ [CHR 0xC3, CHR 0xA9] @
     '' a certa, e o erro das outras.'' @ [CHR 0x0A] @ ''5. MNEM'' @ [CHR 0xC3, CHR 0x94] @
     ''NICOS: Sempre que existir um mnem'' @ [CHR 0xC3, CHR 0xB4] @ ''nico cl'' @
     [CHR 0xC3, CHR 0xA1] @ ''ssico, destaque-o no final com o emoji '' @
     [CHR 0xF0, CHR 0x9F, CHR 0xA7, CHR 0xA0] @ ''.'' @ [CHR 0x0A]"

text \<open>The prefix of the first seeded turn, \<^verbatim>\<open>Instrucoes do Sistema: \<close> (with its accents).\<close>

definition instrucoes_prefix :: string where
  "instrucoes_prefix =
     ''Instru'' @ [CHR 0xC3, CHR 0xA7, CHR 0xC3, CHR 0xB5] @ ''es do Sistema: ''"

text \<open>The text of the seeded acknowledgment turn.\<close>

definition compreendido :: string where
  "compreendido =
     ''Compreendido. Aguardando a primeira d'' @ [CHR 0xC3, CHR 0xBA] @ ''vida m'' @
     [CHR 0xC3, CHR 0xA9] @ ''dica ou quest'' @ [CHR 0xC3, CHR 0xA3] @ ''o.''"

text \<open>The prefix of the line logged in the \<^verbatim>\<open>catch\<close> block of \<open>gerarRespostaGemini\<close>.\<close>

definition erro_gemini_prefix :: string where
  "erro_gemini_prefix =
     [CHR 0xE2, CHR 0x9A, CHR 0xA0, CHR 0xEF, CHR 0xB8, CHR 0x8F] @ '' Erro Gemini: ''"

text \<open>The string returned from the \<^verbatim>\<open>catch\<close> block of \<open>gerarRespostaGemini\<close>.\<close>

definition erro_ao_processar :: string where
  "erro_ao_processar =
     [CHR 0xE2, CHR 0x9A, CHR 0xA0, CHR 0xEF, CHR 0xB8, CHR 0x8F] @
     '' Erro ao processar com a IA. Tente novamente em alguns instantes'' @ ''.''"

text \<open>The two fixed pieces of the line logged for every message that is served.\<close>

definition duvida_recebida_de :: string where
  "duvida_recebida_de =
     [CHR 0xF0, CHR 0x9F, CHR 0x92, CHR 0xAC] @ '' D'' @ [CHR 0xC3, CHR 0xBA] @
     ''vida recebida de ''"

definition processando :: string where
  "processando =
     ''! Processando...''"

definition erro_ao_responder :: string where
  "erro_ao_responder =
     ''Erro ao responder:''"

section \<open>Conversation data\<close>

text \<open>
  A history entry is the object \<^verbatim>\<open>{ role: r, parts: [{ text: t }] }\<close>. The field
  \<^verbatim>\<open>text\<close> is named \<open>part_text\<close> here. The source uses exactly two role strings,
  \<^verbatim>\<open>"user"\<close> and \<^verbatim>\<open>"model"\<close>.
\<close>

record part =
  part_text :: string

record content =
  role :: string
  parts :: "part list"

text \<open>An error object, reduced to its \<^verbatim>\<open>message\<close>.\<close>

datatype js_error = Error (message: string)

text \<open>
  Everything the program does to the outside, in the order it does it: console output,
  requests to the model and calls on the messaging client.
\<close>

datatype effect =
    ConsoleLog string
  | ConsoleError string
  | ConsoleErrorObj string js_error
  | SendMessage "content list" string
  | SendStateTyping string
  | Reply string string
  | ClearState string

text \<open>
  The process state: the global \<^verbatim>\<open>chatHistory\<close> map (\<^verbatim>\<open>new Map()\<close>, keyed by user
  id) and the trace of effects so far. The map holds array objects. Whoever holds the
  array of a user (the variable \<^verbatim>\<open>historico\<close>, and the chat session it is handed to)
  holds the object stored in the map, so every push onto it is an update of the map
  entry.
\<close>

record world =
  chatHistory :: "string \<rightharpoonup> content list"
  effects :: "effect list"

definition world0 :: world where
  "world0 = \<lparr>chatHistory = Map.empty, effects = []\<rparr>"

definition emit :: "effect \<Rightarrow> world \<Rightarrow> world" where
  "emit e w = w\<lparr>effects := effects w @ [e]\<rparr>"

section \<open>The chat session of the model library\<close>

text \<open>
  Line 70 hands the stored array itself to \<^verbatim>\<open>model.startChat({ history: historico })\<close>.
  The chat session of the library keeps that array as its own history, and
  \<^verbatim>\<open>chat.sendMessage(text)\<close> writes to it: when the request fails the call throws and
  nothing is written; when a response arrives and passes the library's validity check, the
  session pushes the user turn \<^verbatim>\<open>{ role: "user", parts: [{ text }] }\<close> and then the
  candidate of the response, with role \<^verbatim>\<open>"model"\<close>, before the call resolves; a response
  that does not pass the check is returned with nothing pushed. Afterwards
  \<^verbatim>\<open>result.response.text()\<close> (line 74) yields the text of the response or throws, for a
  blocked prompt or a candidate cut short.

  The service is a parameter. For the history it is sent and the new input, its outcome is
  \<^item> \<open>Rejected e\<close>: \<^verbatim>\<open>sendMessage\<close> throws \<open>e\<close>;
  \<^item> \<open>Resolved cand answer\<close>: \<^verbatim>\<open>sendMessage\<close> resolves; \<open>cand\<close> is \<open>Some ps\<close> when the
    response is valid, \<open>ps\<close> being the parts of its candidate, and \<open>None\<close> otherwise;
    \<open>answer\<close> is what \<^verbatim>\<open>response.text()\<close> then does, \<open>Inr\<close> the text or \<open>Inl\<close> the error
    thrown.
  \<^verbatim>\<open>getGenerativeModel\<close> and \<^verbatim>\<open>startChat\<close> only build objects and are taken not to throw.
\<close>

datatype sdk_result =
    Rejected js_error
  | Resolved "part list option" "js_error + string"

type_synonym model_client = "content list \<Rightarrow> string \<Rightarrow> sdk_result"

text \<open>The shared array once \<^verbatim>\<open>sendMessage\<close> has resolved.\<close>

definition sdk_history :: "content list \<Rightarrow> string \<Rightarrow> part list option \<Rightarrow> content list" where
  "sdk_history historico textoUsuario cand =
     (case cand of
        None \<Rightarrow> historico
      | Some ps \<Rightarrow> historico
          @ [\<lparr>role = ''user'', parts = [\<lparr>part_text = textoUsuario\<rparr>]\<rparr>]
          @ [\<lparr>role = ''model'', parts = ps\<rparr>])"

section \<open>gerarRespostaGemini\<close>

text \<open>The array literal stored for a user on first contact (lines 63 to 66).\<close>

definition initialHistory :: "content list" where
  "initialHistory =
     [\<lparr>role = ''user'', parts = [\<lparr>part_text = instrucoes_prefix @ PROMPT_MEDICINA\<rparr>]\<rparr>,
      \<lparr>role = ''model'', parts = [\<lparr>part_text = compreendido\<rparr>]\<rparr>]"

text \<open>
  Lines 62 to 69: \<^verbatim>\<open>if (!chatHistory.has(userId)) chatHistory.set(userId, [...])\<close>, then
  \<^verbatim>\<open>historico = chatHistory.get(userId)\<close>. The result is the transcript and the state
  with the transcript stored.
\<close>

definition getOrCreate :: "string \<Rightarrow> world \<Rightarrow> content list \<times> world" where
  "getOrCreate userId w =
     (case chatHistory w userId of
        None \<Rightarrow> (initialHistory, w\<lparr>chatHistory := (chatHistory w)(userId \<mapsto> initialHistory)\<rparr>)
      | Some historico \<Rightarrow> (historico, w))"

text \<open>
  \<^verbatim>\<open>Array.prototype.splice(start, deleteCount)\<close> for non-negative arguments and no inserted
  items: the elements from \<open>start\<close> on, at most \<open>deleteCount\<close> of them, are removed.
\<close>

definition splice_js :: "nat \<Rightarrow> nat \<Rightarrow> 'a list \<Rightarrow> 'a list" where
  "splice_js start deleteCount xs = take start xs @ drop (start + deleteCount) xs"

text \<open>
  The function itself. A throw of \<^verbatim>\<open>sendMessage\<close> (line 73) or of \<^verbatim>\<open>response.text()\<close>
  (line 74) goes to the \<^verbatim>\<open>catch\<close> block, which logs and returns the fixed string; in
  the second case the session has already written to the stored array. Otherwise lines 76
  and 77 push the two turns onto the array as the session left it and, when it then has
  more than 30 elements, line 80 applies \<^verbatim>\<open>splice(2, 2)\<close>.
\<close>

definition gerarRespostaGemini ::
    "model_client \<Rightarrow> string \<Rightarrow> string \<Rightarrow> world \<Rightarrow> string \<times> world" where
  "gerarRespostaGemini sendMessage userId textoUsuario w =
     (let (historico, w1) = getOrCreate userId w;
          w2 = emit (SendMessage historico textoUsuario) w1
      in case sendMessage historico textoUsuario of
           Rejected error \<Rightarrow>
             (erro_ao_processar, emit (ConsoleError (erro_gemini_prefix @ message error)) w2)
         | Resolved cand answer \<Rightarrow>
             (let shared = sdk_history historico textoUsuario cand;
                  w3 = w2\<lparr>chatHistory := (chatHistory w2)(userId \<mapsto> shared)\<rparr>
              in case answer of
                   Inl error \<Rightarrow>
                     (erro_ao_processar,
                      emit (ConsoleError (erro_gemini_prefix @ message error)) w3)
                 | Inr respostaText \<Rightarrow>
                     (let pushed = shared
                            @ [\<lparr>role = ''user'', parts = [\<lparr>part_text = textoUsuario\<rparr>]\<rparr>]
                            @ [\<lparr>role = ''model'', parts = [\<lparr>part_text = respostaText\<rparr>]\<rparr>];
                          kept = (if length pushed > 30 then splice_js 2 2 pushed else pushed)
                      in (respostaText,
                          w3\<lparr>chatHistory := (chatHistory w3)(userId \<mapsto> kept)\<rparr>))))"

section \<open>The message handler\<close>

text \<open>
  An inbound event, with the four fields the handler reads (\<^verbatim>\<open>msg.from\<close> is named
  \<open>msg_from\<close>).
\<close>

record msg =
  fromMe :: bool
  isStatus :: bool
  msg_from :: string
  body :: string

text \<open>
  What the four awaited calls on the messaging client do for one event: \<open>None\<close> when the
  call resolves, \<open>Some e\<close> when it throws \<open>e\<close>.
\<close>

record adapter =
  getChat :: "js_error option"
  sendStateTyping :: "js_error option"
  reply :: "js_error option"
  clearState :: "js_error option"

text \<open>The handler registered for \<^verbatim>\<open>message_create\<close> (lines 119 to 137).\<close>

definition on_message_create :: "model_client \<Rightarrow> adapter \<Rightarrow> msg \<Rightarrow> world \<Rightarrow> world" where
  "on_message_create sendMessage ad m w =
     (if fromMe m \<or> isStatus m then w
      else
        let w1 = emit (ConsoleLog (duvida_recebida_de @ msg_from m @ processando)) w in
        case getChat ad of
          Some e \<Rightarrow> emit (ConsoleErrorObj erro_ao_responder e) w1
        | None \<Rightarrow>
        (case sendStateTyping ad of
          Some e \<Rightarrow> emit (ConsoleErrorObj erro_ao_responder e) w1
        | None \<Rightarrow>
        (let w2 = emit (SendStateTyping (msg_from m)) w1;
             (resposta, w3) = gerarRespostaGemini sendMessage (msg_from m) (body m) w2
         in case reply ad of
              Some e \<Rightarrow> emit (ConsoleErrorObj erro_ao_responder e) w3
            | None \<Rightarrow>
            (let w4 = emit (Reply (msg_from m) resposta) w3
             in case clearState ad of
                  Some e \<Rightarrow> emit (ConsoleErrorObj erro_ao_responder e) w4
                | None \<Rightarrow> emit (ClearState (msg_from m)) w4))))"

text \<open>
  A run of the process: direct calls of \<open>gerarRespostaGemini\<close> and inbound events, one
  after the other, from the state at start-up. Every step brings its own model client, so
  nothing is assumed about how the outcomes of different calls relate.
\<close>

datatype step =
    Handle model_client string string
  | Message model_client adapter msg

fun exec :: "step \<Rightarrow> world \<Rightarrow> world" where
  "exec (Handle sendMessage userId textoUsuario) w =
     snd (gerarRespostaGemini sendMessage userId textoUsuario w)"
| "exec (Message sendMessage ad m) w = on_message_create sendMessage ad m w"

fun run :: "step list \<Rightarrow> world \<Rightarrow> world" where
  "run [] w = w"
| "run (s # ss) w = run ss (exec s w)"

section \<open>The status page\<close>







section \<open>Properties of transcripts\<close>

text \<open>The role a transcript with alternating turns has at index \<open>i\<close>.\<close>

definition expected_role :: "nat \<Rightarrow> string" where
  "expected_role i = (if even i then ''user'' else ''model'')"

text \<open>
  The invariant of a stored transcript: it starts with the two seeded entries, has an even
  number of entries, and user and model turns alternate.
\<close>

definition transcript_ok :: "content list \<Rightarrow> bool" where
  "transcript_ok h \<longleftrightarrow>
     take 2 h = initialHistory \<and> even (length h) \<and>
     (\<forall>i<length h. role (h ! i) = expected_role i)"

definition store_ok :: "world \<Rightarrow> bool" where
  "store_ok w \<longleftrightarrow> (\<forall>u h. chatHistory w u = Some h \<longrightarrow> transcript_ok h)"

section \<open>Model clients and transcripts used as concrete inputs\<close>

text \<open>
  A service that always answers \<open>r\<close> in a valid response of one text part, and one that
  always sends a valid response whose candidate was cut short after \<open>r\<close>, so that
  \<^verbatim>\<open>response.text()\<close> throws.
\<close>

definition client_replying :: "string \<Rightarrow> model_client" where
  "client_replying r historico textoUsuario = Resolved (Some [\<lparr>part_text = r\<rparr>]) (Inr r)"

definition client_blocked :: "string \<Rightarrow> model_client" where
  "client_blocked r historico textoUsuario =
     Resolved (Some [\<lparr>part_text = r\<rparr>]) (Inl (Error ''Candidate was blocked due to RECITATION''))"

text \<open>The seeded transcript followed by \<open>k\<close> turns of the same question and answer.\<close>

definition after_turns :: "string \<Rightarrow> string \<Rightarrow> nat \<Rightarrow> content list" where
  "after_turns t r k =
     initialHistory @ concat (replicate k
       [\<lparr>role = ''user'', parts = [\<lparr>part_text = t\<rparr>]\<rparr>,
        \<lparr>role = ''model'', parts = [\<lparr>part_text = r\<rparr>]\<rparr>])"

text \<open>
  The number of such turns stored after a call answered by \<open>client_replying\<close>, when \<open>k\<close>
  were stored before it.
\<close>

definition turns_after_call :: "nat \<Rightarrow> nat" where
  "turns_after_call k = (if 13 \<le> k then k + 1 else k + 2)"

section \<open>The invariant is kept by every step\<close>

lemma length_initialHistory: "length initialHistory = 2"
  by (simp add: initialHistory_def)

lemma transcript_ok_initial: "transcript_ok initialHistory"
  by (auto simp: transcript_ok_def initialHistory_def expected_role_def less_Suc_eq)

lemma transcript_ok_length: "transcript_ok h \<Longrightarrow> 2 \<le> length h"
proof -
  assume "transcript_ok h"
  then have "length (take 2 h) = 2"
    by (simp add: transcript_ok_def length_initialHistory)
  then show ?thesis by simp
qed

lemma length_splice:
  "start + n \<le> length xs \<Longrightarrow> length (splice_js start n xs) = length xs - n"
  by (simp add: splice_js_def)

lemma nth_splice:
  assumes "start + n \<le> length xs" "i < length xs - n"
  shows "splice_js start n xs ! i = (if i < start then xs ! i else xs ! (i + n))"
  using assms by (auto simp: splice_js_def nth_append add.commute add.left_commute)

lemma take_splice: "k \<le> start \<Longrightarrow> take k (splice_js start n xs) = take k xs"
  by (simp add: splice_js_def min_def)

lemma all_roles_push:
  assumes "\<forall>i<length h. role (h ! i) = expected_role i" "even (length h)"
    "role a = ''user''" "role b = ''model''"
  shows "\<forall>i<length (h @ [a] @ [b]). role ((h @ [a] @ [b]) ! i) = expected_role i"
proof (intro allI impI)
  fix i assume lt: "i < length (h @ [a] @ [b])"
  then consider "i < length h" | "i = length h" | "i = Suc (length h)"
    by (simp add: less_Suc_eq) linarith
  then show "role ((h @ [a] @ [b]) ! i) = expected_role i"
  proof cases
    case 1
    then show ?thesis using assms(1) by (simp add: nth_append)
  next
    case 2
    then show ?thesis using assms(2,3) by (simp add: nth_append expected_role_def)
  next
    case 3
    then show ?thesis using assms(2,4) by (simp add: nth_append expected_role_def)
  qed
qed

lemma all_roles_splice:
  assumes "\<forall>i<length h. role (h ! i) = expected_role i" "4 \<le> length h"
  shows "\<forall>i<length (splice_js 2 2 h). role (splice_js 2 2 h ! i) = expected_role i"
proof (intro allI impI)
  fix i assume "i < length (splice_js 2 2 h)"
  then have lt: "i < length h - 2" using assms(2) by (simp add: length_splice)
  have "splice_js 2 2 h ! i = (if i < 2 then h ! i else h ! (i + 2))"
    using assms(2) lt by (simp add: nth_splice)
  moreover have "expected_role (i + 2) = expected_role i"
    by (simp add: expected_role_def)
  ultimately show "role (splice_js 2 2 h ! i) = expected_role i"
    using assms(1) lt by auto
qed

lemma transcript_ok_push:
  assumes "transcript_ok h" "role a = ''user''" "role b = ''model''"
  shows "transcript_ok (h @ [a] @ [b])"
proof -
  have len: "2 \<le> length h" using assms(1) by (rule transcript_ok_length)
  have "\<forall>i<length (h @ [a] @ [b]). role ((h @ [a] @ [b]) ! i) = expected_role i"
    using assms by (intro all_roles_push) (simp_all add: transcript_ok_def)
  then show ?thesis
    using assms(1) len by (simp add: transcript_ok_def)
qed

lemma transcript_ok_splice:
  assumes "transcript_ok p" "4 \<le> length p"
  shows "transcript_ok (splice_js 2 2 p)"
proof -
  have "\<forall>i<length (splice_js 2 2 p). role (splice_js 2 2 p ! i) = expected_role i"
    using assms by (intro all_roles_splice) (simp_all add: transcript_ok_def)
  moreover have "length (splice_js 2 2 p) = length p - 2"
    using assms(2) by (simp add: length_splice)
  moreover have "take 2 (splice_js 2 2 p) = initialHistory"
    using assms(1) by (simp add: take_splice transcript_ok_def)
  ultimately show ?thesis
    using assms by (simp add: transcript_ok_def)
qed

lemma transcript_ok_sdk_history:
  "transcript_ok h \<Longrightarrow> transcript_ok (sdk_history h t cand)"
  by (cases cand) (simp_all add: sdk_history_def transcript_ok_push del: append.simps)

lemma transcript_ok_kept:
  assumes "transcript_ok s" "role a = ''user''" "role b = ''model''"
  shows "transcript_ok (if 30 < length (s @ [a] @ [b]) then splice_js 2 2 (s @ [a] @ [b])
                        else s @ [a] @ [b])"
proof -
  have p: "transcript_ok (s @ [a] @ [b])"
    using assms by (rule transcript_ok_push)
  show ?thesis
  proof (cases "30 < length (s @ [a] @ [b])")
    case True
    then have "4 \<le> length (s @ [a] @ [b])" by simp
    with p have "transcript_ok (splice_js 2 2 (s @ [a] @ [b]))"
      by (rule transcript_ok_splice)
    with True show ?thesis by (simp del: append.simps)
  next
    case False
    with p show ?thesis by (simp del: append.simps)
  qed
qed

lemma store_ok_emit [simp]: "store_ok (emit e w) = store_ok w"
  by (simp add: store_ok_def emit_def)

lemma store_ok_world0: "store_ok world0"
  by (simp add: store_ok_def world0_def)

lemma store_ok_getOrCreate:
  "store_ok w \<Longrightarrow> store_ok (snd (getOrCreate u w)) \<and> transcript_ok (fst (getOrCreate u w))"
  by (auto simp: store_ok_def getOrCreate_def transcript_ok_initial split: option.splits)

lemma store_ok_update:
  "store_ok w \<Longrightarrow> transcript_ok h \<Longrightarrow> store_ok (w\<lparr>chatHistory := (chatHistory w)(u \<mapsto> h)\<rparr>)"
  by (simp add: store_ok_def)

section \<open>One call of gerarRespostaGemini\<close>

lemma getOrCreate_fresh:
  "chatHistory w u = None \<Longrightarrow>
   getOrCreate u w = (initialHistory, w\<lparr>chatHistory := (chatHistory w)(u \<mapsto> initialHistory)\<rparr>)"
  by (simp add: getOrCreate_def)

lemma getOrCreate_known: "chatHistory w u = Some h \<Longrightarrow> getOrCreate u w = (h, w)"
  by (simp add: getOrCreate_def)

lemma getOrCreate_cases:
  obtains (fresh) "chatHistory w u = None"
      "getOrCreate u w = (initialHistory, w\<lparr>chatHistory := (chatHistory w)(u \<mapsto> initialHistory)\<rparr>)"
    | (known) h where "chatHistory w u = Some h" "getOrCreate u w = (h, w)"
  by (cases "chatHistory w u") (simp_all add: getOrCreate_def)

lemma chatHistory_getOrCreate:
  "chatHistory (snd (getOrCreate u w)) = (chatHistory w)(u \<mapsto> fst (getOrCreate u w))"
  by (rule getOrCreate_cases [of w u]) (auto simp: fun_upd_idem)

lemma gerar_Rejected:
  assumes "getOrCreate u w = (h, w1)" "c h t = Rejected e"
  shows "gerarRespostaGemini c u t w =
     (erro_ao_processar,
      emit (ConsoleError (erro_gemini_prefix @ message e)) (emit (SendMessage h t) w1))"
  using assms by (simp add: gerarRespostaGemini_def)

lemma gerar_text_throws:
  assumes "getOrCreate u w = (h, w1)" "c h t = Resolved cand (Inl e)"
  shows "gerarRespostaGemini c u t w =
     (erro_ao_processar,
      emit (ConsoleError (erro_gemini_prefix @ message e))
        ((emit (SendMessage h t) w1)\<lparr>chatHistory := (chatHistory w1)(u \<mapsto> sdk_history h t cand)\<rparr>))"
  using assms by (simp add: gerarRespostaGemini_def Let_def emit_def)

lemma gerar_answered:
  assumes "getOrCreate u w = (h, w1)" "c h t = Resolved cand (Inr r)"
  shows "gerarRespostaGemini c u t w =
     (r, (emit (SendMessage h t) w1)\<lparr>chatHistory := (chatHistory w1)(u \<mapsto>
            (if 30 < length (sdk_history h t cand) + 2
             then splice_js 2 2 (sdk_history h t cand
                                   @ [\<lparr>role = ''user'', parts = [\<lparr>part_text = t\<rparr>]\<rparr>]
                                   @ [\<lparr>role = ''model'', parts = [\<lparr>part_text = r\<rparr>]\<rparr>])
             else sdk_history h t cand
                    @ [\<lparr>role = ''user'', parts = [\<lparr>part_text = t\<rparr>]\<rparr>]
                    @ [\<lparr>role = ''model'', parts = [\<lparr>part_text = r\<rparr>]\<rparr>]))\<rparr>)"
  using assms by (simp add: gerarRespostaGemini_def Let_def emit_def del: append.simps)

lemma chatHistory_gerar_other:
  "v \<noteq> u \<Longrightarrow> chatHistory (snd (gerarRespostaGemini c u t w)) v = chatHistory w v"
proof -
  assume neq: "v \<noteq> u"
  obtain h w1 where g: "getOrCreate u w = (h, w1)" by (cases "getOrCreate u w")
  have w1: "chatHistory w1 v = chatHistory w v"
    using chatHistory_getOrCreate [of u w] g neq by simp
  show ?thesis
  proof (cases "c h t")
    case (Rejected e)
    then show ?thesis using w1 by (simp add: gerar_Rejected [where c = c, OF g] emit_def)
  next
    case (Resolved cand answer)
    show ?thesis
    proof (cases answer)
      case (Inl e)
      with Resolved show ?thesis
        using w1 neq by (simp add: gerar_text_throws [where c = c, OF g] emit_def)
    next
      case (Inr r)
      with Resolved show ?thesis
        using w1 neq by (simp add: gerar_answered [where c = c, OF g] emit_def)
    qed
  qed
qed

lemma store_ok_gerar:
  assumes "store_ok w"
  shows "store_ok (snd (gerarRespostaGemini c u t w))"
proof -
  obtain h w1 where g: "getOrCreate u w = (h, w1)" by (cases "getOrCreate u w")
  with assms have ok: "store_ok w1" "transcript_ok h"
    using store_ok_getOrCreate [of w u] by simp_all
  show ?thesis
  proof (cases "c h t")
    case (Rejected e)
    then show ?thesis using ok by (simp add: gerar_Rejected [where c = c, OF g])
  next
    case (Resolved cand answer)
    have s: "transcript_ok (sdk_history h t cand)"
      using ok(2) by (rule transcript_ok_sdk_history)
    show ?thesis
    proof (cases answer)
      case (Inl e)
      have "store_ok (w1\<lparr>chatHistory := (chatHistory w1)(u \<mapsto> sdk_history h t cand)\<rparr>)"
        using ok(1) s by (rule store_ok_update)
      with Resolved Inl show ?thesis
        by (simp add: gerar_text_throws [where c = c, OF g] emit_def store_ok_def)
    next
      case (Inr r)
      let ?a = "\<lparr>role = ''user'', parts = [\<lparr>part_text = t\<rparr>]\<rparr>"
      let ?b = "\<lparr>role = ''model'', parts = [\<lparr>part_text = r\<rparr>]\<rparr>"
      let ?s = "sdk_history h t cand"
      have "transcript_ok (if 30 < length (?s @ [?a] @ [?b]) then splice_js 2 2 (?s @ [?a] @ [?b])
                           else ?s @ [?a] @ [?b])"
        using s by (rule transcript_ok_kept) simp_all
      then have k: "transcript_ok (if 30 < length ?s + 2 then splice_js 2 2 (?s @ [?a] @ [?b])
                           else ?s @ [?a] @ [?b])"
        by (simp del: append.simps)
      have "store_ok (w1\<lparr>chatHistory := (chatHistory w1)(u \<mapsto>
               (if 30 < length ?s + 2 then splice_js 2 2 (?s @ [?a] @ [?b])
                else ?s @ [?a] @ [?b]))\<rparr>)"
        using ok(1) k by (rule store_ok_update)
      with Resolved Inr show ?thesis
        by (simp add: gerar_answered [where c = c, OF g] emit_def store_ok_def
              del: append.simps)
    qed
  qed
qed

lemma store_ok_on_message_create:
  assumes "store_ok w"
  shows "store_ok (on_message_create c ad m w)"
  using assms store_ok_gerar
  by (auto simp: on_message_create_def Let_def split: option.splits prod.splits)
     (metis snd_conv store_ok_emit)+

lemma store_ok_exec: "store_ok w \<Longrightarrow> store_ok (exec s w)"
  by (cases s) (simp_all add: store_ok_gerar store_ok_on_message_create)

lemma store_ok_run: "store_ok w \<Longrightarrow> store_ok (run ss w)"
  by (induction ss arbitrary: w) (simp_all add: store_ok_exec)

lemma store_ok_reachable: "store_ok (run ss world0)"
  by (rule store_ok_run) (rule store_ok_world0)

lemma transcript_ok_reachable:
  "chatHistory (run ss world0) u = Some h \<Longrightarrow> transcript_ok h"
  using store_ok_reachable [of ss] by (simp add: store_ok_def)

section \<open>Repeated answered calls\<close>

lemma length_after_turns: "length (after_turns t r k) = 2 + 2 * k"
  by (induction k) (simp_all add: after_turns_def length_initialHistory)

lemma after_turns_Suc:
  "after_turns t r k @ [\<lparr>role = ''user'', parts = [\<lparr>part_text = t\<rparr>]\<rparr>]
       @ [\<lparr>role = ''model'', parts = [\<lparr>part_text = r\<rparr>]\<rparr>] = after_turns t r (Suc k)"
proof -
  let ?P = "[\<lparr>role = ''user'', parts = [\<lparr>part_text = t\<rparr>]\<rparr>,
             \<lparr>role = ''model'', parts = [\<lparr>part_text = r\<rparr>]\<rparr>]"
  have "concat (replicate k ?P) @ ?P = concat (replicate k ?P @ [?P])"
    by simp
  also have "\<dots> = concat (replicate (Suc k) ?P)"
    by (simp only: replicate_append_same replicate.simps)
  finally show ?thesis
    by (simp add: after_turns_def)
qed

lemma splice_after_turns:
  "splice_js 2 2 (after_turns t r (Suc k)) = after_turns t r k"
  by (simp add: splice_js_def after_turns_def length_initialHistory)

lemma sdk_history_after_turns:
  "sdk_history (after_turns t r k) t (Some [\<lparr>part_text = r\<rparr>]) = after_turns t r (Suc k)"
  by (simp add: sdk_history_def after_turns_Suc del: append.simps)

lemma after_turns_step:
  assumes "fst (getOrCreate u w) = after_turns t r k"
  shows "chatHistory (exec (Handle (client_replying r) u t) w) u
           = Some (after_turns t r (turns_after_call k))"
proof -
  obtain w1 where g: "getOrCreate u w = (after_turns t r k, w1)"
    using assms by (cases "getOrCreate u w") simp
  have c: "client_replying r (after_turns t r k) t = Resolved (Some [\<lparr>part_text = r\<rparr>]) (Inr r)"
    by (simp add: client_replying_def)
  have s: "splice_js 2 2 (after_turns t r (Suc (Suc k))) = after_turns t r (Suc k)"
    by (rule splice_after_turns)
  show ?thesis
    using s
    by (simp add: gerar_answered [where c = "client_replying r", OF g c]
          sdk_history_after_turns after_turns_Suc length_after_turns turns_after_call_def
          del: append.simps)
qed

lemma after_turns_run:
  assumes "fst (getOrCreate u w) = after_turns t r k"
  shows "chatHistory (run (replicate (Suc n) (Handle (client_replying r) u t)) w) u
           = Some (after_turns t r ((turns_after_call ^^ Suc n) k))"
  using assms
proof (induction n arbitrary: w k)
  case 0
  then show ?case using after_turns_step [of u w t r k] by simp
next
  case (Suc n)
  let ?w = "exec (Handle (client_replying r) u t) w"
  have "chatHistory ?w u = Some (after_turns t r (turns_after_call k))"
    using Suc.prems by (rule after_turns_step)
  then have "fst (getOrCreate u ?w) = after_turns t r (turns_after_call k)"
    by (simp add: getOrCreate_known)
  then have "chatHistory (run (replicate (Suc n) (Handle (client_replying r) u t)) ?w) u
           = Some (after_turns t r ((turns_after_call ^^ Suc n) (turns_after_call k)))"
    by (rule Suc.IH)
  then show ?case
    by (simp add: funpow_swap1)
qed

lemma after_turns_from_start:
  "chatHistory (run (replicate (Suc n) (Handle (client_replying r) u t)) world0) u
     = Some (after_turns t r ((turns_after_call ^^ Suc n) 0))"
proof -
  have "fst (getOrCreate u world0) = after_turns t r 0"
    by (simp add: getOrCreate_def world0_def after_turns_def)
  then show ?thesis
    by (rule after_turns_run)
qed

lemma take_after_turns: "take 2 (after_turns t r k) = initialHistory"
  by (simp add: after_turns_def length_initialHistory)

lemma after_first_call:
  "chatHistory (run [Handle (client_replying r) u t] world0) u = Some (after_turns t r 2)"
proof -
  have "turns_after_call 0 = 2" by (simp add: turns_after_call_def)
  then show ?thesis
    using after_turns_from_start [of 0 r u t] by simp
qed

lemma world0_fresh: "chatHistory world0 u = None"
  by (simp add: world0_def)

lemma turns_after_calls:
  "(turns_after_call ^^ 7) 0 = 14" "(turns_after_call ^^ 8) 0 = 15"
  "(turns_after_call ^^ 20) 0 = 27"
  by (simp_all add: eval_nat_numeral turns_after_call_def)

section \<open>What the three pages contain\<close>







section \<open>What holds of every run\<close>

text \<open>
  After any run from start-up every stored transcript still begins with the two seeded
  entries and has an even number of entries.
\<close>

lemma preamble_kept:
  "chatHistory (run ss world0) u = Some h \<Longrightarrow> take 2 h = initialHistory \<and> even (length h)"
  by (drule transcript_ok_reachable) (simp add: transcript_ok_def)

text \<open>
  When \<^verbatim>\<open>sendMessage\<close> itself throws, the map after the call is the map after lines 62 to
  69: nothing was pushed.
\<close>

lemma rejected_leaves_store:
  assumes "c (fst (getOrCreate u w)) t = Rejected e"
  shows "fst (gerarRespostaGemini c u t w) = erro_ao_processar
       \<and> chatHistory (snd (gerarRespostaGemini c u t w)) = chatHistory (snd (getOrCreate u w))"
proof -
  obtain h w1 where g: "getOrCreate u w = (h, w1)" by (cases "getOrCreate u w")
  with assms have c: "c h t = Rejected e" by simp
  show ?thesis
    using g by (simp add: gerar_Rejected [where c = c, OF g c] emit_def)
qed

section \<open>The claims\<close>

text \<open>
  C1. The claim is that after every append a transcript has at most 30 entries and keeps
  its first two. The first two are kept (\<open>preamble_kept\<close>), but the bound is not: an
  answered call puts four entries on the array, two pushed by the chat session and two by
  lines 76 and 77, and line 80 removes two. For a new user \<^verbatim>\<open>"A"\<close> the seventh answered
  call stores 30 entries and the eighth stores 32.
\<close>

theorem cap_exceeded_by_eighth_call:
  "chatHistory (run (replicate 8 (Handle (client_replying ''hi'') ''A'' ''hello'')) world0) ''A''
     = Some (after_turns ''hello'' ''hi'' 15)
   \<and> length (after_turns ''hello'' ''hi'' 15) = 32
   \<and> take 2 (after_turns ''hello'' ''hi'' 15) = initialHistory"
  using after_turns_from_start [of 7 "''hi''" "''A''" "''hello''"]
  by (simp add: turns_after_calls length_after_turns take_after_turns)

text \<open>
  C2. In an answered call whose pushes bring the array above 30 entries, the stored
  transcript is the pushed array without its entries 2 and 3: it is two shorter, entries 0
  and 1 stay, and every later entry moves down by two. For a pushed array of 31 entries
  the result has 29, and its entries 2 and 3 are the former entries 4 and 5. The pushed
  array is the array as the chat session left it with the two turns of lines 76 and 77
  added.
\<close>

theorem eviction_removes_indices_2_3:
  assumes "chatHistory w u = Some h" "c h t = Resolved cand (Inr r)"
    "pushed = sdk_history h t cand
                @ [\<lparr>role = ''user'', parts = [\<lparr>part_text = t\<rparr>]\<rparr>]
                @ [\<lparr>role = ''model'', parts = [\<lparr>part_text = r\<rparr>]\<rparr>]"
    "30 < length pushed"
  shows "\<exists>kept. chatHistory (snd (gerarRespostaGemini c u t w)) u = Some kept
           \<and> kept = take 2 pushed @ drop 4 pushed
           \<and> length kept = length pushed - 2
           \<and> kept ! 0 = pushed ! 0 \<and> kept ! 1 = pushed ! 1
           \<and> (\<forall>i. 2 \<le> i \<and> i < length kept \<longrightarrow> kept ! i = pushed ! (i + 2))
           \<and> (length pushed = 31 \<longrightarrow>
                 length kept = 29 \<and> kept ! 2 = pushed ! 4 \<and> kept ! 3 = pushed ! 5)"
proof -
  let ?kept = "splice_js 2 2 pushed"
  have g: "getOrCreate u w = (h, w)"
    using assms(1) by (rule getOrCreate_known)
  have stored: "chatHistory (snd (gerarRespostaGemini c u t w)) u = Some ?kept"
    using assms(3,4) by (simp add: gerar_answered [where c = c, OF g assms(2)] emit_def)
  have big: "2 + 2 \<le> length pushed" using assms(4) by simp
  have len: "length ?kept = length pushed - 2"
    using big by (rule length_splice)
  have nth: "?kept ! i = (if i < 2 then pushed ! i else pushed ! (i + 2))"
    if "i < length pushed - 2" for i
    using big that by (rule nth_splice)
  have "?kept = take 2 pushed @ drop 4 pushed"
    by (simp add: splice_js_def)
  moreover have "?kept ! 0 = pushed ! 0" "?kept ! 1 = pushed ! 1"
    using nth [of 0] nth [of 1] assms(4) by simp_all
  moreover have "\<forall>i. 2 \<le> i \<and> i < length ?kept \<longrightarrow> ?kept ! i = pushed ! (i + 2)"
    using nth len by auto
  moreover have "length pushed = 31 \<longrightarrow>
      length ?kept = 29 \<and> ?kept ! 2 = pushed ! 4 \<and> ?kept ! 3 = pushed ! 5"
    using nth [of 2] nth [of 3] len by auto
  ultimately show ?thesis
    using stored len by blast
qed

theorem eviction_removes_indices_2_3_witness:
  "chatHistory \<lparr>chatHistory = [''A'' \<mapsto> after_turns ''hello'' ''hi'' 12 @ [\<lparr>role = ''user'', parts = [\<lparr>part_text = ''pending''\<rparr>]\<rparr>]],
               effects = []\<rparr> ''A''
     = Some (after_turns ''hello'' ''hi'' 12 @ [\<lparr>role = ''user'', parts = [\<lparr>part_text = ''pending''\<rparr>]\<rparr>])
   \<and> client_replying ''hi'' (after_turns ''hello'' ''hi'' 12 @ [\<lparr>role = ''user'', parts = [\<lparr>part_text = ''pending''\<rparr>]\<rparr>]) ''hello''
       = Resolved (Some [\<lparr>part_text = ''hi''\<rparr>]) (Inr ''hi'')
   \<and> 30 < length (sdk_history (after_turns ''hello'' ''hi'' 12 @ [\<lparr>role = ''user'', parts = [\<lparr>part_text = ''pending''\<rparr>]\<rparr>]) ''hello''
                      (Some [\<lparr>part_text = ''hi''\<rparr>])
                    @ [\<lparr>role = ''user'', parts = [\<lparr>part_text = ''hello''\<rparr>]\<rparr>]
                    @ [\<lparr>role = ''model'', parts = [\<lparr>part_text = ''hi''\<rparr>]\<rparr>])
   \<and> map_option length
        (chatHistory (snd (gerarRespostaGemini (client_replying ''hi'') ''A'' ''hello''
           \<lparr>chatHistory = [''A'' \<mapsto> after_turns ''hello'' ''hi'' 12 @ [\<lparr>role = ''user'', parts = [\<lparr>part_text = ''pending''\<rparr>]\<rparr>]],
            effects = []\<rparr>)) ''A'')
      = Some 29"
proof -
  let ?h = "after_turns ''hello'' ''hi'' 12 @ [\<lparr>role = ''user'', parts = [\<lparr>part_text = ''pending''\<rparr>]\<rparr>]"
  let ?w = "\<lparr>chatHistory = [''A'' \<mapsto> ?h], effects = []\<rparr>"
  let ?p = "sdk_history ?h ''hello'' (Some [\<lparr>part_text = ''hi''\<rparr>])
               @ [\<lparr>role = ''user'', parts = [\<lparr>part_text = ''hello''\<rparr>]\<rparr>]
               @ [\<lparr>role = ''model'', parts = [\<lparr>part_text = ''hi''\<rparr>]\<rparr>]"
  have a: "chatHistory ?w ''A'' = Some ?h" by simp
  have b: "client_replying ''hi'' ?h ''hello'' = Resolved (Some [\<lparr>part_text = ''hi''\<rparr>]) (Inr ''hi'')"
    by (simp add: client_replying_def)
  have d: "length ?p = 31" by (simp add: length_after_turns sdk_history_def)
  then have c: "30 < length ?p" by simp
  show ?thesis
    using a b c d
      eviction_removes_indices_2_3 [where c = "client_replying ''hi''", OF a b refl c]
    by auto
qed

text \<open>
  C3. The claim is that a failure of the model client, whatever its reason, leaves the
  user's transcript as it was and yields the fixed string. The fixed string is returned,
  and a throw of \<^verbatim>\<open>sendMessage\<close> leaves the map alone (\<open>rejected_leaves_store\<close>). But when
  the response is valid and \<^verbatim>\<open>response.text()\<close> throws, the chat session has already
  pushed the user turn and the candidate onto the stored array: for \<^verbatim>\<open>"A"\<close>, whose
  transcript has 6 entries after one answered call, such a failure returns the fixed string
  and leaves 8 entries stored.
\<close>

theorem text_failure_grows_transcript:
  "chatHistory (run [Handle (client_replying ''hi'') ''A'' ''hello''] world0) ''A''
     = Some (after_turns ''hello'' ''hi'' 2)
   \<and> fst (gerarRespostaGemini (client_blocked ''par'') ''A'' ''again''
          (run [Handle (client_replying ''hi'') ''A'' ''hello''] world0)) = erro_ao_processar
   \<and> chatHistory (snd (gerarRespostaGemini (client_blocked ''par'') ''A'' ''again''
          (run [Handle (client_replying ''hi'') ''A'' ''hello''] world0))) ''A''
       = Some (after_turns ''hello'' ''hi'' 2
                 @ [\<lparr>role = ''user'', parts = [\<lparr>part_text = ''again''\<rparr>]\<rparr>,
                    \<lparr>role = ''model'', parts = [\<lparr>part_text = ''par''\<rparr>]\<rparr>])
   \<and> length (after_turns ''hello'' ''hi'' 2) = 6
   \<and> length (after_turns ''hello'' ''hi'' 2
                 @ [\<lparr>role = ''user'', parts = [\<lparr>part_text = ''again''\<rparr>]\<rparr>,
                    \<lparr>role = ''model'', parts = [\<lparr>part_text = ''par''\<rparr>]\<rparr>]) = 8"
proof -
  let ?w = "run [Handle (client_replying ''hi'') ''A'' ''hello''] world0"
  have h: "chatHistory ?w ''A'' = Some (after_turns ''hello'' ''hi'' 2)"
    by (rule after_first_call)
  have g: "getOrCreate ''A'' ?w = (after_turns ''hello'' ''hi'' 2, ?w)"
    using h by (rule getOrCreate_known)
  have c: "client_blocked ''par'' (after_turns ''hello'' ''hi'' 2) ''again''
      = Resolved (Some [\<lparr>part_text = ''par''\<rparr>])
          (Inl (Error ''Candidate was blocked due to RECITATION''))"
    by (simp add: client_blocked_def)
  show ?thesis
    using h
    by (simp add: gerar_text_throws [where c = "client_blocked ''par''", OF g c]
          emit_def sdk_history_def length_after_turns del: run.simps)
qed

text \<open>
  C4, as the code has it. For a user who is not in the map, lines 62 to 69 store and
  yield a transcript of exactly two entries. Entry 0 has role \<^verbatim>\<open>"user"\<close> (the source has
  no third role) and carries the system instructions as its text, the fixed prefix
  followed by \<open>PROMPT_MEDICINA\<close>; entry 1 has role \<^verbatim>\<open>"model"\<close> and carries the fixed
  acknowledgment.
\<close>

theorem getOrCreate_first_contact:
  assumes "chatHistory w u = None"
  shows "length (fst (getOrCreate u w)) = 2
       \<and> fst (getOrCreate u w) ! 0 =
           \<lparr>role = ''user'', parts = [\<lparr>part_text = instrucoes_prefix @ PROMPT_MEDICINA\<rparr>]\<rparr>
       \<and> fst (getOrCreate u w) ! 1 =
           \<lparr>role = ''model'', parts = [\<lparr>part_text = compreendido\<rparr>]\<rparr>
       \<and> chatHistory (snd (getOrCreate u w)) u = Some (fst (getOrCreate u w))"
  using assms by (simp add: getOrCreate_def initialHistory_def)

theorem getOrCreate_first_contact_witness:
  "chatHistory world0 ''A'' = None
   \<and> length (fst (getOrCreate ''A'' world0)) = 2
   \<and> role (fst (getOrCreate ''A'' world0) ! 0) = ''user''
   \<and> role (fst (getOrCreate ''A'' world0) ! 1) = ''model''"
proof -
  have a: "chatHistory world0 ''A'' = None" by (simp add: world0_def)
  show ?thesis
    using a getOrCreate_first_contact [OF a] by simp
qed

text \<open>
  The claim as written asks for the role \<^verbatim>\<open>system-setup\<close> at entry 0. For the new user
  \<^verbatim>\<open>"A"\<close> at start-up the role stored there is a different string.
\<close>

theorem getOrCreate_role_counterexample:
  "role (fst (getOrCreate ''A'' world0) ! 0) \<noteq> ''system-setup''"
  by (simp add: getOrCreate_def world0_def initialHistory_def)

text \<open>
  C5. The claim is that an answered call returns the text of the answer, appends the user
  turn and the model turn, and makes the transcript longer by exactly 2 (or leaves its
  length when the eviction fires). The text is returned, but four entries are appended:
  the chat session pushes the user turn and the candidate, and lines 76 and 77 push the
  user turn and the answer again. For a new user \<^verbatim>\<open>"A"\<close> who sends \<^verbatim>\<open>"hello"\<close> and is
  answered \<^verbatim>\<open>"hi"\<close>, the stored transcript has 6 entries, not 4.
\<close>

theorem answered_call_stores_four:
  "chatHistory world0 ''A'' = None
   \<and> fst (gerarRespostaGemini (client_replying ''hi'') ''A'' ''hello'' world0) = ''hi''
   \<and> chatHistory (snd (gerarRespostaGemini (client_replying ''hi'') ''A'' ''hello'' world0)) ''A''
       = Some (initialHistory
                 @ [\<lparr>role = ''user'', parts = [\<lparr>part_text = ''hello''\<rparr>]\<rparr>,
                    \<lparr>role = ''model'', parts = [\<lparr>part_text = ''hi''\<rparr>]\<rparr>,
                    \<lparr>role = ''user'', parts = [\<lparr>part_text = ''hello''\<rparr>]\<rparr>,
                    \<lparr>role = ''model'', parts = [\<lparr>part_text = ''hi''\<rparr>]\<rparr>])
   \<and> length (initialHistory
                 @ [\<lparr>role = ''user'', parts = [\<lparr>part_text = ''hello''\<rparr>]\<rparr>,
                    \<lparr>role = ''model'', parts = [\<lparr>part_text = ''hi''\<rparr>]\<rparr>,
                    \<lparr>role = ''user'', parts = [\<lparr>part_text = ''hello''\<rparr>]\<rparr>,
                    \<lparr>role = ''model'', parts = [\<lparr>part_text = ''hi''\<rparr>]\<rparr>]) = 6"
proof -
  have g: "getOrCreate ''A'' world0 =
      (initialHistory, world0\<lparr>chatHistory := (chatHistory world0)(''A'' \<mapsto> initialHistory)\<rparr>)"
    using world0_fresh by (rule getOrCreate_fresh)
  have c: "client_replying ''hi'' initialHistory ''hello''
      = Resolved (Some [\<lparr>part_text = ''hi''\<rparr>]) (Inr ''hi'')"
    by (simp add: client_replying_def)
  show ?thesis
    by (simp add: gerar_answered [where c = "client_replying ''hi''", OF g c]
          emit_def sdk_history_def length_initialHistory world0_fresh)
qed

text \<open>
  C6. An event with \<^verbatim>\<open>fromMe\<close> or \<^verbatim>\<open>isStatus\<close> set leaves the handler at its first line:
  the state after it is the state before it, so no transcript is created or changed, no
  request goes to the model, nothing is logged and no reply is sent.
\<close>

theorem self_and_status_events_ignored:
  assumes "fromMe m \<or> isStatus m"
  shows "on_message_create c ad m w = w
       \<and> chatHistory (on_message_create c ad m w) = chatHistory w
       \<and> effects (on_message_create c ad m w) = effects w"
  using assms by (auto simp: on_message_create_def)

theorem self_and_status_events_ignored_witness:
  "isStatus \<lparr>fromMe = False, isStatus = True, msg_from = ''status@broadcast'', body = ''x''\<rparr>
   \<and> on_message_create (client_replying ''hi'')
        \<lparr>getChat = None, sendStateTyping = None, reply = None, clearState = None\<rparr>
        \<lparr>fromMe = False, isStatus = True, msg_from = ''status@broadcast'', body = ''x''\<rparr>
        world0 = world0"
  using self_and_status_events_ignored
    [of "\<lparr>fromMe = False, isStatus = True, msg_from = ''status@broadcast'', body = ''x''\<rparr>"
        "client_replying ''hi''"
        "\<lparr>getChat = None, sendStateTyping = None, reply = None, clearState = None\<rparr>" world0]
  by simp

text \<open>
  C7. In every transcript stored after any run from start-up the roles alternate, user at
  the even indices and model at the odd ones, and the number of entries is even, so the
  turns come in whole pairs. The pair the chat session pushes keeps this, pushing a user
  turn and a model turn keeps it, and so does removing the entries 2 and 3 from the pushed
  array: what is left still alternates and still has an even number of entries.
\<close>

theorem turns_alternate:
  assumes "chatHistory (run ss world0) u = Some h"
    "shared = sdk_history h t cand"
    "pushed = shared @ [\<lparr>role = ''user'', parts = [\<lparr>part_text = t\<rparr>]\<rparr>]
                     @ [\<lparr>role = ''model'', parts = [\<lparr>part_text = r\<rparr>]\<rparr>]"
  shows "(\<forall>i<length h. role (h ! i) = expected_role i) \<and> even (length h)
       \<and> (\<forall>i<length shared. role (shared ! i) = expected_role i) \<and> even (length shared)
       \<and> (\<forall>i<length pushed. role (pushed ! i) = expected_role i)
       \<and> (\<forall>i<length (splice_js 2 2 pushed).
             role (splice_js 2 2 pushed ! i) = expected_role i)
       \<and> even (length (splice_js 2 2 pushed))"
proof -
  have "transcript_ok h"
    using assms(1) by (rule transcript_ok_reachable)
  then have ok: "transcript_ok h" "transcript_ok shared"
    unfolding assms(2) by (simp_all add: transcript_ok_sdk_history)
  then have p: "transcript_ok pushed"
    unfolding assms(3) by (intro transcript_ok_push) simp_all
  have "2 \<le> length shared" using ok(2) by (rule transcript_ok_length)
  then have "4 \<le> length pushed" using assms(3) by simp
  with p have "transcript_ok (splice_js 2 2 pushed)"
    by (rule transcript_ok_splice)
  then show ?thesis
    using ok p by (simp add: transcript_ok_def)
qed

theorem turns_alternate_witness:
  "chatHistory (run (replicate 20 (Handle (client_replying ''hi'') ''A'' ''hello'')) world0) ''A''
     = Some (after_turns ''hello'' ''hi'' 27)
   \<and> role (after_turns ''hello'' ''hi'' 27 ! 2) = ''user''
   \<and> role (after_turns ''hello'' ''hi'' 27 ! 55) = ''model''
   \<and> even (length (after_turns ''hello'' ''hi'' 27))"
proof -
  have h: "chatHistory (run (replicate 20 (Handle (client_replying ''hi'') ''A'' ''hello'')) world0) ''A''
     = Some (after_turns ''hello'' ''hi'' 27)"
    using after_turns_from_start [of 19 "''hi''" "''A''" "''hello''"]
    by (simp add: turns_after_calls)
  have "\<forall>i<length (after_turns ''hello'' ''hi'' 27).
          role (after_turns ''hello'' ''hi'' 27 ! i) = expected_role i"
    "even (length (after_turns ''hello'' ''hi'' 27))"
    using turns_alternate [OF h refl refl] by simp_all
  then show ?thesis
    using h by (simp add: length_after_turns expected_role_def)
qed

text \<open>
  C9. The claim is that stored transcripts have even length, that a call changes the length
  by 2 or by 0, and that 30 is the greatest length reached. Lengths are even
  (\<open>preamble_kept\<close>), but an answered call adds 4 entries, or 2 when the eviction fires,
  and the lengths pass 30: for a new user \<^verbatim>\<open>"A"\<close> one answered call stores 6 entries,
  seven store 30, eight store 32 and twenty store 56.
\<close>

theorem lengths_pass_thirty:
  "map_option length (chatHistory (run [Handle (client_replying ''hi'') ''A'' ''hello''] world0) ''A'') = Some 6
   \<and> map_option length (chatHistory (run (replicate 7 (Handle (client_replying ''hi'') ''A'' ''hello'')) world0) ''A'') = Some 30
   \<and> map_option length (chatHistory (run (replicate 8 (Handle (client_replying ''hi'') ''A'' ''hello'')) world0) ''A'') = Some 32
   \<and> map_option length (chatHistory (run (replicate 20 (Handle (client_replying ''hi'') ''A'' ''hello'')) world0) ''A'') = Some 56"
  using after_first_call [of "''hi''" "''A''" "''hello''"]
    after_turns_from_start [of 6 "''hi''" "''A''" "''hello''"]
    after_turns_from_start [of 7 "''hi''" "''A''" "''hello''"]
    after_turns_from_start [of 19 "''hi''" "''A''" "''hello''"]
  by (simp add: turns_after_calls length_after_turns)

text \<open>
  C10. The claim is that a failing call for a user not yet in the map leaves that user
  stored with the untouched seeded transcript. The key is set before the model is asked,
  and when \<^verbatim>\<open>sendMessage\<close> throws the stored transcript is the seed
  (\<open>rejected_leaves_store\<close>). But when the response is valid and \<^verbatim>\<open>response.text()\<close>
  throws, the stored transcript of the new user \<^verbatim>\<open>"A"\<close> is the seed followed by the user
  turn and the candidate the chat session pushed: 4 entries, with the fixed string
  returned.
\<close>

theorem first_contact_text_failure:
  "chatHistory world0 ''A'' = None
   \<and> fst (gerarRespostaGemini (client_blocked ''par'') ''A'' ''hello'' world0) = erro_ao_processar
   \<and> chatHistory (snd (gerarRespostaGemini (client_blocked ''par'') ''A'' ''hello'' world0)) ''A''
       = Some (initialHistory
                 @ [\<lparr>role = ''user'', parts = [\<lparr>part_text = ''hello''\<rparr>]\<rparr>,
                    \<lparr>role = ''model'', parts = [\<lparr>part_text = ''par''\<rparr>]\<rparr>])
   \<and> length (initialHistory
                 @ [\<lparr>role = ''user'', parts = [\<lparr>part_text = ''hello''\<rparr>]\<rparr>,
                    \<lparr>role = ''model'', parts = [\<lparr>part_text = ''par''\<rparr>]\<rparr>]) = 4"
proof -
  have g: "getOrCreate ''A'' world0 =
      (initialHistory, world0\<lparr>chatHistory := (chatHistory world0)(''A'' \<mapsto> initialHistory)\<rparr>)"
    using world0_fresh by (rule getOrCreate_fresh)
  have c: "client_blocked ''par'' initialHistory ''hello''
      = Resolved (Some [\<lparr>part_text = ''par''\<rparr>])
          (Inl (Error ''Candidate was blocked due to RECITATION''))"
    by (simp add: client_blocked_def)
  show ?thesis
    by (simp add: gerar_text_throws [where c = "client_blocked ''par''", OF g c]
          emit_def sdk_history_def length_initialHistory world0_fresh)
qed



end
